theory Spec2Isabelle
  imports Complex_Main
begin

section \<open>Python values, dictionaries and strings\<close>

text \<open>
  The three agents build their results as Python dictionaries whose values are strings,
  integers or float literals. A dictionary literal is kept as an association list in the
  order in which the source writes its keys; none of the literals repeats a key.
  A float is only ever stored and returned (the code does no arithmetic on it), so it is
  represented by the decimal number that the source literal denotes.
\<close>

datatype pyval = VStr string | VInt int | VFloat real

type_synonym pydict = "(string \<times> pyval) list"

text \<open>\<open>d.get(k)\<close>: the value stored under \<open>k\<close>, or \<open>None\<close>.\<close>

definition dict_get :: "(string \<times> 'v) list \<Rightarrow> string \<Rightarrow> 'v option" where
  "dict_get d k = map_of d k"

text \<open>\<open>d.get(k, default)\<close>.\<close>

definition dict_get_default :: "(string \<times> 'v) list \<Rightarrow> string \<Rightarrow> 'v \<Rightarrow> 'v" where
  "dict_get_default d k dflt = (case map_of d k of None \<Rightarrow> dflt | Some v \<Rightarrow> v)"

definition keys :: "(string \<times> 'v) list \<Rightarrow> string list" where
  "keys d = map fst d"

text \<open>
  \<open>str.lower()\<close> on ASCII text. Strings are sequences of bytes here (UTF-8); the
  upper-case ASCII letters \<open>A\<close>..\<open>Z\<close> (codes 65..90) are moved to \<open>a\<close>..\<open>z\<close> and every
  other byte is kept. On a string of ASCII characters this is what \<open>str.lower\<close> returns.
  Python also lower-cases letters beyond ASCII (the Kelvin sign U+212A becomes \<open>k\<close>), which
  \<open>lower\<close> does not do; it is used where the lookups are evaluated at ASCII keys, and the
  statements about every input string are made for the lookups with the lower-casing
  function left open (\<open>get_fee_for_payment_method_with\<close>, \<open>get_exchange_rate_with\<close>).
\<close>

definition lower_char :: "char \<Rightarrow> char" where
  "lower_char c =
     (let n = (of_char c :: nat) in if 65 \<le> n \<and> n \<le> 90 then char_of (n + 32) else c)"

definition lower :: "string \<Rightarrow> string" where
  "lower s = map lower_char s"

text \<open>
  The text that an f-string substitutes for an integer: its decimal digits, with a
  leading minus sign when it is negative.
\<close>

fun str_of_nat :: "nat \<Rightarrow> string" where
  "str_of_nat n =
     (if n < 10 then [char_of (48 + n)]
      else str_of_nat (n div 10) @ [char_of (48 + n mod 10)])"

declare str_of_nat.simps [simp del]

definition str_of_int :: "int \<Rightarrow> string" where
  "str_of_int i = (if i < 0 then CHR ''-'' # str_of_nat (nat (- i)) else str_of_nat (nat i))"

text \<open>The apostrophe that the messages put around an echoed argument.\<close>

definition apostrophe :: string where
  "apostrophe = [CHR 0x27]"

section \<open>Currency converter: fee and exchange-rate lookups\<close>

definition fee_database :: "(string \<times> real) list" where
  "fee_database =
     [(''platinum credit card'', 0.02),
      (''gold debit card'', 0.035),
      (''bank transfer'', 0.01)]"

definition get_fee_for_payment_method :: "string \<Rightarrow> pydict" where
  "get_fee_for_payment_method method =
     (case dict_get fee_database (lower method) of
        Some fee \<Rightarrow> [(''status'', VStr ''success''), (''fee_percentage'', VFloat fee)]
      | None \<Rightarrow>
          [(''status'', VStr ''error''),
           (''error_message'',
            VStr (''Payment method '' @ apostrophe @ method @ apostrophe @ '' not found''))])"

definition rate_database :: "(string \<times> (string \<times> real) list) list" where
  "rate_database = [(''usd'', [(''eur'', 0.93), (''jpy'', 157.5), (''inr'', 83.58)])]"

definition get_exchange_rate :: "string \<Rightarrow> string \<Rightarrow> pydict" where
  "get_exchange_rate base_currency target_currency =
     (case dict_get (dict_get_default rate_database (lower base_currency) [])
             (lower target_currency) of
        Some rate \<Rightarrow> [(''status'', VStr ''success''), (''rate'', VFloat rate)]
      | None \<Rightarrow>
          [(''status'', VStr ''error''),
           (''error_message'',
            VStr (''Unsupported currency pair: '' @ base_currency @ ''/'' @ target_currency))])"

text \<open>
  The same two functions with the lower-casing function left open. \<open>str.lower\<close> is a
  builtin of the language, not part of the sources, and follows the Unicode case mappings;
  here it is the parameter \<open>lw\<close>, any function on strings (in their UTF-8 bytes). Each
  body is the body above with \<open>lw\<close> in the places where the source calls \<open>.lower()\<close>: the
  keys are lower-cased for the lookup, and the error message is built from the arguments
  as they were passed.
\<close>

definition get_fee_for_payment_method_with :: "(string \<Rightarrow> string) \<Rightarrow> string \<Rightarrow> pydict" where
  "get_fee_for_payment_method_with lw method =
     (case dict_get fee_database (lw method) of
        Some fee \<Rightarrow> [(''status'', VStr ''success''), (''fee_percentage'', VFloat fee)]
      | None \<Rightarrow>
          [(''status'', VStr ''error''),
           (''error_message'',
            VStr (''Payment method '' @ apostrophe @ method @ apostrophe @ '' not found''))])"

definition get_exchange_rate_with ::
    "(string \<Rightarrow> string) \<Rightarrow> string \<Rightarrow> string \<Rightarrow> pydict" where
  "get_exchange_rate_with lw base_currency target_currency =
     (case dict_get (dict_get_default rate_database (lw base_currency) [])
             (lw target_currency) of
        Some rate \<Rightarrow> [(''status'', VStr ''success''), (''rate'', VFloat rate)]
      | None \<Rightarrow>
          [(''status'', VStr ''error''),
           (''error_message'',
            VStr (''Unsupported currency pair: '' @ base_currency @ ''/'' @ target_currency))])"

section \<open>The invocation context of a gated tool\<close>

text \<open>
  Modelled from the spec: the class \<open>ToolContext\<close> and the decision object it carries come
  from the agent framework, which is not part of the sources. The interface of a gated
  tool is described as an invocation context exposing whether a confirmation decision is
  already attached and, if so, its boolean value, and a method that requests confirmation
  from a hint and a payload. The requests made through that method are the pending
  records; the context keeps them in the order in which they were made.
\<close>

record tool_confirmation =
  confirmed :: bool

record confirmation_request =
  hint :: string
  payload :: pydict

record tool_context =
  tool_confirmation :: "tool_confirmation option"
  requested_confirmations :: "confirmation_request list"

definition request_confirmation :: "string \<Rightarrow> pydict \<Rightarrow> tool_context \<Rightarrow> tool_context" where
  "request_confirmation h p ctx =
     ctx\<lparr>requested_confirmations :=
           requested_confirmations ctx @ [\<lparr>hint = h, payload = p\<rparr>]\<rparr>"

text \<open>The UTF-8 bytes of the signs that open some hints and messages.\<close>

definition warning_sign :: string where
  "warning_sign = [CHR 0xE2, CHR 0x9A, CHR 0xA0, CHR 0xEF, CHR 0xB8, CHR 0x8F]"

definition check_mark :: string where
  "check_mark = [CHR 0xE2, CHR 0x9C, CHR 0x85]"

definition pause_sign :: string where
  "pause_sign = [CHR 0xE2, CHR 0x8F, CHR 0xB8, CHR 0xEF, CHR 0xB8, CHR 0x8F]"

definition cross_mark :: string where
  "cross_mark = [CHR 0xE2, CHR 0x9D, CHR 0x8C]"

section \<open>Shipping agent\<close>

definition LARGE_ORDER_THRESHOLD :: int where
  "LARGE_ORDER_THRESHOLD = 5"

text \<open>
  \<open>place_shipping_order\<close> returns its result dictionary together with the context as the
  call leaves it. The test \<open>not tool_context.tool_confirmation\<close> holds exactly when no
  decision object is attached.
\<close>

definition place_shipping_order ::
    "int \<Rightarrow> string \<Rightarrow> tool_context \<Rightarrow> pydict \<times> tool_context" where
  "place_shipping_order num_containers destination ctx =
     (if num_containers \<le> LARGE_ORDER_THRESHOLD then
        ([(''status'', VStr ''approved''),
          (''order_id'', VStr (''ORD-'' @ str_of_int num_containers @ ''-AUTO'')),
          (''num_containers'', VInt num_containers),
          (''destination'', VStr destination),
          (''message'',
           VStr (''Order auto-approved: '' @ str_of_int num_containers
                 @ '' containers to '' @ destination))],
         ctx)
      else
        (case tool_confirmation ctx of
           None \<Rightarrow>
             ([(''status'', VStr ''pending''),
               (''message'',
                VStr (''Order for '' @ str_of_int num_containers
                      @ '' containers requires approval''))],
              request_confirmation
                (warning_sign @ '' Large order: '' @ str_of_int num_containers
                 @ '' containers to '' @ destination @ ''. Approve?'')
                [(''num_containers'', VInt num_containers),
                 (''destination'', VStr destination)]
                ctx)
         | Some decision \<Rightarrow>
             if confirmed decision then
               ([(''status'', VStr ''approved''),
                 (''order_id'', VStr (''ORD-'' @ str_of_int num_containers @ ''-HUMAN'')),
                 (''num_containers'', VInt num_containers),
                 (''destination'', VStr destination),
                 (''message'',
                  VStr (''Order approved: '' @ str_of_int num_containers
                        @ '' containers to '' @ destination))],
                ctx)
             else
               ([(''status'', VStr ''rejected''),
                 (''message'',
                  VStr (''Order rejected: '' @ str_of_int num_containers
                        @ '' containers to '' @ destination))],
                ctx)))"

section \<open>Image generation agent\<close>

definition BULK_THRESHOLD :: int where
  "BULK_THRESHOLD = 1"

text \<open>
  \<open>request_image_generation\<close> first prints a trace line to the console; the console is not
  part of the context and the line is left out. The rest follows the source case by case.
\<close>

definition request_image_generation ::
    "string \<Rightarrow> int \<Rightarrow> tool_context \<Rightarrow> pydict \<times> tool_context" where
  "request_image_generation prompt num_images ctx =
     (if num_images \<le> BULK_THRESHOLD then
        ([(''status'', VStr ''approved''),
          (''message'',
           VStr (check_mark @ '' Auto-approved: '' @ str_of_int num_images
                 @ '' image(s) for '' @ apostrophe @ prompt @ apostrophe @ ''.''))],
         ctx)
      else
        (case tool_confirmation ctx of
           None \<Rightarrow>
             ([(''status'', VStr ''pending''),
               (''message'',
                VStr (pause_sign @ '' Awaiting approval for '' @ str_of_int num_images
                      @ '' image(s).''))],
              request_confirmation
                (warning_sign @ '' Bulk request for '' @ str_of_int num_images
                 @ '' images. Approve generation for '' @ apostrophe @ prompt
                 @ apostrophe @ ''?'')
                [(''prompt'', VStr prompt), (''num_images'', VInt num_images)]
                ctx)
         | Some decision \<Rightarrow>
             if confirmed decision then
               ([(''status'', VStr ''approved''),
                 (''message'',
                  VStr (check_mark @ '' Approved bulk generation: '' @ str_of_int num_images
                        @ '' image(s) for '' @ apostrophe @ prompt @ apostrophe @ ''.''))],
                ctx)
             else
               ([(''status'', VStr ''rejected''),
                 (''message'',
                  VStr (cross_mark @ '' Rejected bulk generation for '' @ apostrophe @ prompt
                        @ apostrophe @ ''.''))],
                ctx)))"

section \<open>Contexts of a first attempt and of a resumed attempt\<close>

text \<open>
  A first attempt runs in a context with no decision attached. A resumed attempt runs in
  the context that the suspended call left, with the approver's decision attached.
\<close>

definition fresh_context :: tool_context where
  "fresh_context = \<lparr>tool_confirmation = None, requested_confirmations = []\<rparr>"

definition attach_decision :: "bool \<Rightarrow> tool_context \<Rightarrow> tool_context" where
  "attach_decision b ctx = ctx\<lparr>tool_confirmation := Some \<lparr>confirmed = b\<rparr>\<rparr>"

definition status_of :: "pydict \<Rightarrow> pyval option" where
  "status_of result = dict_get result ''status''"

section \<open>Auxiliary facts\<close>

lemma lower_char_idem: "lower_char (lower_char c) = lower_char c"
  by (auto simp add: lower_char_def Let_def)

lemma lower_idem: "lower (lower s) = lower s"
  by (simp add: lower_def lower_char_idem)

lemma human_suffix_not_auto_suffix: "a @ ''-HUMAN'' \<noteq> b @ ''-AUTO''"
proof
  assume "a @ ''-HUMAN'' = b @ ''-AUTO''"
  then have "last (a @ ''-HUMAN'') = last (b @ ''-AUTO'')"
    by (rule arg_cong)
  then show False
    by simp
qed

lemma request_confirmation_grows:
  "length (requested_confirmations (request_confirmation h p ctx)) =
     Suc (length (requested_confirmations ctx))"
  by (simp add: request_confirmation_def)

lemma request_confirmation_changes: "request_confirmation h p ctx \<noteq> ctx"
proof
  assume "request_confirmation h p ctx = ctx"
  then have "length (requested_confirmations (request_confirmation h p ctx)) =
      length (requested_confirmations ctx)"
    by simp
  then show False
    by (simp add: request_confirmation_grows)
qed

lemma lower_platinum: "lower ''Platinum Credit Card'' = ''platinum credit card''"
  by code_simp

lemma lower_bitcoin: "lower ''bitcoin'' = ''bitcoin''"
  by code_simp

lemma str_of_int_10: "str_of_int 10 = ''10''"
  by code_simp

lemma threshold_values: "LARGE_ORDER_THRESHOLD = 5 \<and> BULK_THRESHOLD = 1"
  by (simp add: LARGE_ORDER_THRESHOLD_def BULK_THRESHOLD_def)

lemma fresh_context_simps [simp]:
  "tool_confirmation fresh_context = None"
  "requested_confirmations fresh_context = []"
  by (simp_all add: fresh_context_def)

lemma attach_decision_simps [simp]:
  "tool_confirmation (attach_decision b ctx) = Some \<lparr>confirmed = b\<rparr>"
  "requested_confirmations (attach_decision b ctx) = requested_confirmations ctx"
  by (simp_all add: attach_decision_def)

section \<open>The confirmation gate\<close>

text \<open>
  Claim C1. With thresholds 5 (containers) and 1 (images), a first attempt, that is a call
  with no confirmation decision attached, returns status \<open>approved\<close> when the size is at
  most the threshold and status \<open>pending\<close> when the size is strictly greater, for both
  tools and every integer size.
\<close>

theorem first_attempt_status:
  "tool_confirmation ctx = None \<Longrightarrow>
     LARGE_ORDER_THRESHOLD = 5 \<and> BULK_THRESHOLD = 1 \<and>
     (n \<le> LARGE_ORDER_THRESHOLD \<longrightarrow>
        status_of (fst (place_shipping_order n d ctx)) = Some (VStr ''approved'')) \<and>
     (LARGE_ORDER_THRESHOLD < n \<longrightarrow>
        status_of (fst (place_shipping_order n d ctx)) = Some (VStr ''pending'')) \<and>
     (k \<le> BULK_THRESHOLD \<longrightarrow>
        status_of (fst (request_image_generation p k ctx)) = Some (VStr ''approved'')) \<and>
     (BULK_THRESHOLD < k \<longrightarrow>
        status_of (fst (request_image_generation p k ctx)) = Some (VStr ''pending''))"
  by (simp add: threshold_values place_shipping_order_def request_image_generation_def
      status_of_def dict_get_def)

theorem first_attempt_status_witness:
  "tool_confirmation fresh_context = None \<and>
   status_of (fst (place_shipping_order 3 ''Rotterdam'' fresh_context)) = Some (VStr ''approved'') \<and>
   status_of (fst (place_shipping_order 10 ''Rotterdam'' fresh_context)) = Some (VStr ''pending'') \<and>
   status_of (fst (request_image_generation ''cat'' 1 fresh_context)) = Some (VStr ''approved'') \<and>
   status_of (fst (request_image_generation ''cat'' 4 fresh_context)) = Some (VStr ''pending'')"
proof -
  have h: "tool_confirmation fresh_context = None"
    by simp
  show ?thesis
    using h first_attempt_status [OF h, of 3 "''Rotterdam''" 1 "''cat''"]
      first_attempt_status [OF h, of 10 "''Rotterdam''" 4 "''cat''"]
    by simp
qed


text \<open>
  Claim C2. When the size exceeds the threshold and a confirmation decision is attached,
  the status is \<open>approved\<close> if the decision's \<open>confirmed\<close> flag is true and \<open>rejected\<close> if
  it is false, for both tools.
\<close>

theorem resumed_above_threshold_status:
  "tool_confirmation ctx = Some c \<Longrightarrow>
     (LARGE_ORDER_THRESHOLD < n \<longrightarrow>
        (confirmed c \<longrightarrow>
           status_of (fst (place_shipping_order n d ctx)) = Some (VStr ''approved'')) \<and>
        (\<not> confirmed c \<longrightarrow>
           status_of (fst (place_shipping_order n d ctx)) = Some (VStr ''rejected''))) \<and>
     (BULK_THRESHOLD < k \<longrightarrow>
        (confirmed c \<longrightarrow>
           status_of (fst (request_image_generation p k ctx)) = Some (VStr ''approved'')) \<and>
        (\<not> confirmed c \<longrightarrow>
           status_of (fst (request_image_generation p k ctx)) = Some (VStr ''rejected'')))"
  by (simp add: place_shipping_order_def request_image_generation_def status_of_def
      dict_get_def)

theorem resumed_above_threshold_status_witness:
  "LARGE_ORDER_THRESHOLD < 10 \<and> BULK_THRESHOLD < 4 \<and>
   status_of (fst (place_shipping_order 10 ''Rotterdam'' (attach_decision True fresh_context)))
     = Some (VStr ''approved'') \<and>
   status_of (fst (place_shipping_order 10 ''Rotterdam'' (attach_decision False fresh_context)))
     = Some (VStr ''rejected'') \<and>
   status_of (fst (request_image_generation ''cat'' 4 (attach_decision True fresh_context)))
     = Some (VStr ''approved'') \<and>
   status_of (fst (request_image_generation ''cat'' 4 (attach_decision False fresh_context)))
     = Some (VStr ''rejected'')"
proof -
  have yes: "tool_confirmation (attach_decision True fresh_context) = Some \<lparr>confirmed = True\<rparr>"
    by simp
  have no: "tool_confirmation (attach_decision False fresh_context) = Some \<lparr>confirmed = False\<rparr>"
    by simp
  have above: "LARGE_ORDER_THRESHOLD < 10 \<and> BULK_THRESHOLD < 4"
    by (simp add: threshold_values)
  show ?thesis
    using above
      resumed_above_threshold_status [OF yes, of 10 "''Rotterdam''" 4 "''cat''"]
      resumed_above_threshold_status [OF no, of 10 "''Rotterdam''" 4 "''cat''"]
    by simp
qed

text \<open>
  Claim C3, as stated, fails: the threshold test is the first statement of both tools and
  runs on every call. A resumed call whose size is at most the threshold is approved
  even though the attached decision says no.
\<close>

theorem resumed_below_threshold_counterexample:
  "tool_confirmation (attach_decision False fresh_context) = Some \<lparr>confirmed = False\<rparr> \<and>
   status_of (fst (place_shipping_order 3 ''Rotterdam'' (attach_decision False fresh_context)))
     = Some (VStr ''approved'') \<and>
   status_of (fst (request_image_generation ''cat'' 1 (attach_decision False fresh_context)))
     = Some (VStr ''approved'')"
  by (simp add: place_shipping_order_def request_image_generation_def status_of_def
      dict_get_def threshold_values)

text \<open>
  Claim C3, amended. The threshold test is evaluated on every call, resumed or not. A
  resumed call is approved when the size is at most the threshold, whatever the decision;
  above the threshold it is approved exactly when \<open>confirmed\<close> is true and rejected
  exactly when it is false.
\<close>

theorem resumed_status_by_threshold_then_decision:
  "tool_confirmation ctx = Some c \<Longrightarrow>
     status_of (fst (place_shipping_order n d ctx)) =
       Some (VStr (if n \<le> LARGE_ORDER_THRESHOLD \<or> confirmed c
                   then ''approved'' else ''rejected'')) \<and>
     status_of (fst (request_image_generation p k ctx)) =
       Some (VStr (if k \<le> BULK_THRESHOLD \<or> confirmed c
                   then ''approved'' else ''rejected''))"
  by (simp add: place_shipping_order_def request_image_generation_def status_of_def
      dict_get_def)

theorem resumed_status_by_threshold_then_decision_witness:
  "tool_confirmation (attach_decision False fresh_context) = Some \<lparr>confirmed = False\<rparr> \<and>
   status_of (fst (place_shipping_order 5 ''Rotterdam'' (attach_decision False fresh_context)))
     = Some (VStr ''approved'') \<and>
   status_of (fst (place_shipping_order 6 ''Rotterdam'' (attach_decision False fresh_context)))
     = Some (VStr ''rejected'') \<and>
   status_of (fst (request_image_generation ''cat'' 1 (attach_decision False fresh_context)))
     = Some (VStr ''approved'') \<and>
   status_of (fst (request_image_generation ''cat'' 2 (attach_decision False fresh_context)))
     = Some (VStr ''rejected'')"
proof -
  have no: "tool_confirmation (attach_decision False fresh_context) = Some \<lparr>confirmed = False\<rparr>"
    by simp
  show ?thesis
    using no
      resumed_status_by_threshold_then_decision [OF no, of 5 "''Rotterdam''" "''cat''" 1]
      resumed_status_by_threshold_then_decision [OF no, of 6 "''Rotterdam''" "''cat''" 2]
    by (simp add: threshold_values)
qed

text \<open>
  Claim C4, as stated, fails: \<open>place_shipping_order\<close> never looks at the pending records.
  With a decision attached and no pending record at all it returns \<open>approved\<close> or
  \<open>rejected\<close> like any other resumed call.
\<close>

theorem resume_without_pending_record_counterexample:
  "requested_confirmations (attach_decision True fresh_context) = [] \<and>
   status_of (fst (place_shipping_order 10 ''Rotterdam'' (attach_decision True fresh_context)))
     = Some (VStr ''approved'') \<and>
   requested_confirmations (attach_decision False fresh_context) = [] \<and>
   status_of (fst (place_shipping_order 10 ''Rotterdam'' (attach_decision False fresh_context)))
     = Some (VStr ''rejected'')"
  by (simp add: place_shipping_order_def status_of_def dict_get_def threshold_values)

text \<open>
  Claim C4, amended. \<open>place_shipping_order\<close> signals no error for a decision that has no
  matching pending record: whenever a decision is attached, its result does not depend
  on the pending records, its status is \<open>approved\<close> or \<open>rejected\<close>, and the context is
  left as it was.
\<close>

theorem resume_ignores_pending_records:
  "tool_confirmation ctx = Some c \<Longrightarrow>
     fst (place_shipping_order n d (ctx\<lparr>requested_confirmations := rs\<rparr>)) =
       fst (place_shipping_order n d ctx) \<and>
     (status_of (fst (place_shipping_order n d ctx)) = Some (VStr ''approved'') \<or>
      status_of (fst (place_shipping_order n d ctx)) = Some (VStr ''rejected'')) \<and>
     snd (place_shipping_order n d ctx) = ctx"
  by (simp add: place_shipping_order_def status_of_def dict_get_def)

theorem resume_ignores_pending_records_witness:
  "tool_confirmation (attach_decision True fresh_context) = Some \<lparr>confirmed = True\<rparr> \<and>
   fst (place_shipping_order 10 ''Rotterdam''
          ((attach_decision True fresh_context)
             \<lparr>requested_confirmations := [\<lparr>hint = ''Approve?'', payload = []\<rparr>]\<rparr>)) =
     fst (place_shipping_order 10 ''Rotterdam'' (attach_decision True fresh_context)) \<and>
   snd (place_shipping_order 10 ''Rotterdam'' (attach_decision True fresh_context)) =
     attach_decision True fresh_context"
proof -
  have yes: "tool_confirmation (attach_decision True fresh_context) = Some \<lparr>confirmed = True\<rparr>"
    by simp
  show ?thesis
    using yes
      resume_ignores_pending_records
        [OF yes, of 10 "''Rotterdam''" "[\<lparr>hint = ''Approve?'', payload = []\<rparr>]"]
    by simp
qed


text \<open>
  Claim C5. With threshold 5, an order for 10 containers is first answered with status
  \<open>pending\<close>; resumed with \<open>confirmed = True\<close> it is answered with status \<open>approved\<close>
  and the order identifier \<open>ORD-10-HUMAN\<close>. For every quantity \<open>n\<close> above the threshold
  the identifier of the human-approved order is \<open>ORD-n-HUMAN\<close>, which differs from
  \<open>ORD-n-AUTO\<close> and from the identifier of every auto-approved order.
\<close>

theorem scenario_B_order_identifier:
  "LARGE_ORDER_THRESHOLD = 5 \<and>
   status_of (fst (place_shipping_order 10 d fresh_context)) = Some (VStr ''pending'') \<and>
   status_of (fst (place_shipping_order 10 d
       (attach_decision True (snd (place_shipping_order 10 d fresh_context)))))
     = Some (VStr ''approved'') \<and>
   dict_get (fst (place_shipping_order 10 d
       (attach_decision True (snd (place_shipping_order 10 d fresh_context))))) ''order_id''
     = Some (VStr ''ORD-10-HUMAN'') \<and>
   (LARGE_ORDER_THRESHOLD < n \<longrightarrow>
      dict_get (fst (place_shipping_order n d (attach_decision True ctx))) ''order_id''
        = Some (VStr (''ORD-'' @ str_of_int n @ ''-HUMAN'')) \<and>
      ''ORD-'' @ str_of_int n @ ''-HUMAN'' \<noteq> ''ORD-'' @ str_of_int n @ ''-AUTO'' \<and>
      (m \<le> LARGE_ORDER_THRESHOLD \<longrightarrow>
         dict_get (fst (place_shipping_order m d' ctx')) ''order_id''
           = Some (VStr (''ORD-'' @ str_of_int m @ ''-AUTO'')) \<and>
         dict_get (fst (place_shipping_order n d (attach_decision True ctx))) ''order_id''
           \<noteq> dict_get (fst (place_shipping_order m d' ctx')) ''order_id''))"
proof -
  have scenario:
    "status_of (fst (place_shipping_order 10 d fresh_context)) = Some (VStr ''pending'') \<and>
     status_of (fst (place_shipping_order 10 d
         (attach_decision True (snd (place_shipping_order 10 d fresh_context)))))
       = Some (VStr ''approved'') \<and>
     dict_get (fst (place_shipping_order 10 d
         (attach_decision True (snd (place_shipping_order 10 d fresh_context))))) ''order_id''
       = Some (VStr ''ORD-10-HUMAN'')"
    by (simp add: place_shipping_order_def status_of_def dict_get_def threshold_values
        request_confirmation_def attach_decision_def fresh_context_def str_of_int_10)
  have pattern: "''ORD-'' @ s @ ''-HUMAN'' \<noteq> ''ORD-'' @ t @ ''-AUTO''" for s t :: string
    using human_suffix_not_auto_suffix [of "''ORD-'' @ s" "''ORD-'' @ t"] by simp
  have general:
    "LARGE_ORDER_THRESHOLD < n \<longrightarrow>
      dict_get (fst (place_shipping_order n d (attach_decision True ctx))) ''order_id''
        = Some (VStr (''ORD-'' @ str_of_int n @ ''-HUMAN'')) \<and>
      ''ORD-'' @ str_of_int n @ ''-HUMAN'' \<noteq> ''ORD-'' @ str_of_int n @ ''-AUTO'' \<and>
      (m \<le> LARGE_ORDER_THRESHOLD \<longrightarrow>
         dict_get (fst (place_shipping_order m d' ctx')) ''order_id''
           = Some (VStr (''ORD-'' @ str_of_int m @ ''-AUTO'')) \<and>
         dict_get (fst (place_shipping_order n d (attach_decision True ctx))) ''order_id''
           \<noteq> dict_get (fst (place_shipping_order m d' ctx')) ''order_id'')"
    using pattern [of "str_of_int n" "str_of_int n"] pattern [of "str_of_int n" "str_of_int m"]
    by (simp add: place_shipping_order_def dict_get_def)
  from scenario general show ?thesis
    by (simp add: threshold_values)
qed

theorem scenario_B_order_identifier_witness:
  "LARGE_ORDER_THRESHOLD < 10 \<and> 3 \<le> LARGE_ORDER_THRESHOLD \<and>
   dict_get (fst (place_shipping_order 10 ''Rotterdam'' (attach_decision True fresh_context)))
       ''order_id''
     = Some (VStr ''ORD-10-HUMAN'') \<and>
   dict_get (fst (place_shipping_order 10 ''Rotterdam'' (attach_decision True fresh_context)))
       ''order_id''
     \<noteq> dict_get (fst (place_shipping_order 3 ''Rotterdam'' fresh_context)) ''order_id''"
proof -
  have sizes: "LARGE_ORDER_THRESHOLD < 10 \<and> 3 \<le> LARGE_ORDER_THRESHOLD"
    by (simp add: threshold_values)
  show ?thesis
    using sizes
      scenario_B_order_identifier
        [of "''Rotterdam''" 10 fresh_context 3 "''Rotterdam''" fresh_context]
    by (simp add: str_of_int_10)
qed

text \<open>
  Claim C6. A result with status \<open>pending\<close> carries no domain field: it consists of the
  status and a message text, in that order, and has no \<open>order_id\<close>, \<open>num_containers\<close> or
  \<open>destination\<close> entry. This holds for both tools.
\<close>

theorem pending_result_has_only_status_and_message:
  "(status_of (fst (place_shipping_order n d ctx)) = Some (VStr ''pending'') \<longrightarrow>
      (\<exists>msg. fst (place_shipping_order n d ctx) =
                [(''status'', VStr ''pending''), (''message'', VStr msg)]) \<and>
      keys (fst (place_shipping_order n d ctx)) = [''status'', ''message''] \<and>
      dict_get (fst (place_shipping_order n d ctx)) ''order_id'' = None \<and>
      dict_get (fst (place_shipping_order n d ctx)) ''num_containers'' = None \<and>
      dict_get (fst (place_shipping_order n d ctx)) ''destination'' = None) \<and>
   (status_of (fst (request_image_generation p k ctx)) = Some (VStr ''pending'') \<longrightarrow>
      (\<exists>msg. fst (request_image_generation p k ctx) =
                [(''status'', VStr ''pending''), (''message'', VStr msg)]) \<and>
      keys (fst (request_image_generation p k ctx)) = [''status'', ''message''] \<and>
      dict_get (fst (request_image_generation p k ctx)) ''order_id'' = None \<and>
      dict_get (fst (request_image_generation p k ctx)) ''num_containers'' = None \<and>
      dict_get (fst (request_image_generation p k ctx)) ''destination'' = None)"
proof -
  have shipping: "status_of (fst (place_shipping_order n d ctx)) = Some (VStr ''pending'') \<longrightarrow>
      (\<exists>msg. fst (place_shipping_order n d ctx) =
                [(''status'', VStr ''pending''), (''message'', VStr msg)]) \<and>
      keys (fst (place_shipping_order n d ctx)) = [''status'', ''message''] \<and>
      dict_get (fst (place_shipping_order n d ctx)) ''order_id'' = None \<and>
      dict_get (fst (place_shipping_order n d ctx)) ''num_containers'' = None \<and>
      dict_get (fst (place_shipping_order n d ctx)) ''destination'' = None"
    by (simp add: place_shipping_order_def status_of_def dict_get_def keys_def
        split: option.splits)
  have image: "status_of (fst (request_image_generation p k ctx)) = Some (VStr ''pending'') \<longrightarrow>
      (\<exists>msg. fst (request_image_generation p k ctx) =
                [(''status'', VStr ''pending''), (''message'', VStr msg)]) \<and>
      keys (fst (request_image_generation p k ctx)) = [''status'', ''message''] \<and>
      dict_get (fst (request_image_generation p k ctx)) ''order_id'' = None \<and>
      dict_get (fst (request_image_generation p k ctx)) ''num_containers'' = None \<and>
      dict_get (fst (request_image_generation p k ctx)) ''destination'' = None"
    by (simp add: request_image_generation_def status_of_def dict_get_def keys_def
        split: option.splits)
  from shipping image show ?thesis
    by (rule conjI)
qed

theorem pending_result_has_only_status_and_message_witness:
  "status_of (fst (place_shipping_order 10 ''Rotterdam'' fresh_context))
     = Some (VStr ''pending'') \<and>
   keys (fst (place_shipping_order 10 ''Rotterdam'' fresh_context)) = [''status'', ''message''] \<and>
   status_of (fst (request_image_generation ''cat'' 4 fresh_context))
     = Some (VStr ''pending'') \<and>
   keys (fst (request_image_generation ''cat'' 4 fresh_context)) = [''status'', ''message'']"
proof -
  have shipping_pending:
    "status_of (fst (place_shipping_order 10 ''Rotterdam'' fresh_context))
       = Some (VStr ''pending'')"
    by (simp add: place_shipping_order_def status_of_def dict_get_def threshold_values)
  have image_pending:
    "status_of (fst (request_image_generation ''cat'' 4 fresh_context))
       = Some (VStr ''pending'')"
    by (simp add: request_image_generation_def status_of_def dict_get_def threshold_values)
  show ?thesis
    using shipping_pending image_pending
      pending_result_has_only_status_and_message
        [of 10 "''Rotterdam''" fresh_context "''cat''" 4]
    by simp
qed

text \<open>
  Claim C7. When the size is at most the threshold, both tools return status \<open>approved\<close>
  and hand back the context exactly as they received it. A call of
  \<open>request_confirmation\<close> always adds a pending record, so none was made and no pending
  record was created.
\<close>

theorem auto_approve_requests_no_confirmation:
  "request_confirmation h pl ctx \<noteq> ctx \<and>
   (n \<le> LARGE_ORDER_THRESHOLD \<longrightarrow>
      status_of (fst (place_shipping_order n d ctx)) = Some (VStr ''approved'') \<and>
      snd (place_shipping_order n d ctx) = ctx \<and>
      requested_confirmations (snd (place_shipping_order n d ctx))
        = requested_confirmations ctx) \<and>
   (k \<le> BULK_THRESHOLD \<longrightarrow>
      status_of (fst (request_image_generation p k ctx)) = Some (VStr ''approved'') \<and>
      snd (request_image_generation p k ctx) = ctx \<and>
      requested_confirmations (snd (request_image_generation p k ctx))
        = requested_confirmations ctx)"
  by (simp add: request_confirmation_changes place_shipping_order_def
      request_image_generation_def status_of_def dict_get_def)

theorem auto_approve_requests_no_confirmation_witness:
  "3 \<le> LARGE_ORDER_THRESHOLD \<and> 1 \<le> BULK_THRESHOLD \<and>
   status_of (fst (place_shipping_order 3 ''Rotterdam'' fresh_context)) = Some (VStr ''approved'') \<and>
   requested_confirmations (snd (place_shipping_order 3 ''Rotterdam'' fresh_context)) = [] \<and>
   status_of (fst (request_image_generation ''cat'' 1 fresh_context)) = Some (VStr ''approved'') \<and>
   requested_confirmations (snd (request_image_generation ''cat'' 1 fresh_context)) = []"
proof -
  have sizes: "3 \<le> LARGE_ORDER_THRESHOLD \<and> 1 \<le> BULK_THRESHOLD"
    by (simp add: threshold_values)
  show ?thesis
    using sizes
      auto_approve_requests_no_confirmation
        [of "''''" "[]" fresh_context 3 "''Rotterdam''" 1 "''cat''"]
    by simp
qed


section \<open>Facts about the lookups\<close>

lemma status_of_success:
  "status_of [(''status'', VStr ''success''), (k, v)] = Some (VStr ''success'')"
  by (simp add: status_of_def dict_get_def)

lemma status_of_error:
  "status_of [(''status'', VStr ''error''), (k, v)] = Some (VStr ''error'')"
  by (simp add: status_of_def dict_get_def)

lemma success_is_not_error: "Some (VStr ''success'') \<noteq> Some (VStr ''error'')"
  by simp

lemma error_message_has_no_fee:
  "dict_get [(''status'', VStr ''error''), (''error_message'', v)] ''fee_percentage'' = None"
  by (simp add: dict_get_def)

lemma error_message_has_no_rate:
  "dict_get [(''status'', VStr ''error''), (''error_message'', v)] ''rate'' = None"
  by (simp add: dict_get_def)

lemma fee_with_hit:
  "dict_get fee_database (lw m) = Some fee \<Longrightarrow>
     get_fee_for_payment_method_with lw m =
       [(''status'', VStr ''success''), (''fee_percentage'', VFloat fee)]"
  by (simp add: get_fee_for_payment_method_with_def)

lemma fee_with_miss:
  "dict_get fee_database (lw m) = None \<Longrightarrow>
     get_fee_for_payment_method_with lw m =
       [(''status'', VStr ''error''),
        (''error_message'',
         VStr (''Payment method '' @ apostrophe @ m @ apostrophe @ '' not found''))]"
  by (simp add: get_fee_for_payment_method_with_def)

lemma rate_with_hit:
  "dict_get (dict_get_default rate_database (lw b) []) (lw t) = Some rate \<Longrightarrow>
     get_exchange_rate_with lw b t = [(''status'', VStr ''success''), (''rate'', VFloat rate)]"
  by (simp add: get_exchange_rate_with_def)

lemma rate_with_miss:
  "dict_get (dict_get_default rate_database (lw b) []) (lw t) = None \<Longrightarrow>
     get_exchange_rate_with lw b t =
       [(''status'', VStr ''error''),
        (''error_message'', VStr (''Unsupported currency pair: '' @ b @ ''/'' @ t))]"
  by (simp add: get_exchange_rate_with_def)

text \<open>With \<open>lower\<close> for the parameter these are the two lookups as defined above.\<close>

lemma get_fee_for_payment_method_with_lower:
  "get_fee_for_payment_method_with lower m = get_fee_for_payment_method m"
  by (simp only: get_fee_for_payment_method_with_def get_fee_for_payment_method_def)

lemma get_exchange_rate_with_lower:
  "get_exchange_rate_with lower b t = get_exchange_rate b t"
  by (simp only: get_exchange_rate_with_def get_exchange_rate_def)

text \<open>Keys with the same lower-cased form: same status, same fee, same successful result.\<close>

lemma fee_same_lowered_key:
  assumes same: "lw m = lw m'"
  shows "status_of (get_fee_for_payment_method_with lw m) =
           status_of (get_fee_for_payment_method_with lw m') \<and>
         dict_get (get_fee_for_payment_method_with lw m) ''fee_percentage'' =
           dict_get (get_fee_for_payment_method_with lw m') ''fee_percentage'' \<and>
         (status_of (get_fee_for_payment_method_with lw m) = Some (VStr ''success'') \<longrightarrow>
            get_fee_for_payment_method_with lw m = get_fee_for_payment_method_with lw m')"
proof (cases "dict_get fee_database (lw m)")
  case None
  then have other: "dict_get fee_database (lw m') = None"
    using same by simp
  show ?thesis
    by (simp only: fee_with_miss [of lw m, OF None] fee_with_miss [of lw m', OF other] status_of_error
        error_message_has_no_fee) simp
next
  case (Some fee)
  then have other: "dict_get fee_database (lw m') = Some fee"
    using same by simp
  show ?thesis
    by (simp only: fee_with_hit [of lw m, OF Some] fee_with_hit [of lw m', OF other]) simp
qed

lemma rate_same_lowered_keys:
  assumes same: "lw b = lw b'" "lw t = lw t'"
  shows "status_of (get_exchange_rate_with lw b t) =
           status_of (get_exchange_rate_with lw b' t') \<and>
         dict_get (get_exchange_rate_with lw b t) ''rate'' =
           dict_get (get_exchange_rate_with lw b' t') ''rate'' \<and>
         (status_of (get_exchange_rate_with lw b t) = Some (VStr ''success'') \<longrightarrow>
            get_exchange_rate_with lw b t = get_exchange_rate_with lw b' t')"
proof (cases "dict_get (dict_get_default rate_database (lw b) []) (lw t)")
  case None
  then have other: "dict_get (dict_get_default rate_database (lw b') []) (lw t') = None"
    using same by simp
  show ?thesis
    by (simp only: rate_with_miss [of lw b t, OF None] rate_with_miss [of lw b' t', OF other] status_of_error
        error_message_has_no_rate) simp
next
  case (Some rate)
  then have other: "dict_get (dict_get_default rate_database (lw b') []) (lw t') = Some rate"
    using same by simp
  show ?thesis
    by (simp only: rate_with_hit [of lw b t, OF Some] rate_with_hit [of lw b' t', OF other]) simp
qed

text \<open>Every result is a success or an error, and an error echoes the arguments.\<close>

lemma fee_error_echoes_key:
  "(status_of (get_fee_for_payment_method_with lw m) = Some (VStr ''success'') \<or>
    status_of (get_fee_for_payment_method_with lw m) = Some (VStr ''error'')) \<and>
   (status_of (get_fee_for_payment_method_with lw m) = Some (VStr ''error'') \<longrightarrow>
      get_fee_for_payment_method_with lw m =
        [(''status'', VStr ''error''),
         (''error_message'',
          VStr (''Payment method '' @ apostrophe @ m @ apostrophe @ '' not found''))])"
proof (cases "dict_get fee_database (lw m)")
  case None
  show ?thesis
    by (simp only: fee_with_miss [of lw m, OF None] status_of_error) simp
next
  case (Some fee)
  show ?thesis
    by (simp only: fee_with_hit [of lw m, OF Some] status_of_success success_is_not_error) simp
qed

lemma rate_error_echoes_keys:
  "(status_of (get_exchange_rate_with lw b t) = Some (VStr ''success'') \<or>
    status_of (get_exchange_rate_with lw b t) = Some (VStr ''error'')) \<and>
   (status_of (get_exchange_rate_with lw b t) = Some (VStr ''error'') \<longrightarrow>
      get_exchange_rate_with lw b t =
        [(''status'', VStr ''error''),
         (''error_message'', VStr (''Unsupported currency pair: '' @ b @ ''/'' @ t))])"
proof (cases "dict_get (dict_get_default rate_database (lw b) []) (lw t)")
  case None
  show ?thesis
    by (simp only: rate_with_miss [of lw b t, OF None] status_of_error) simp
next
  case (Some rate)
  show ?thesis
    by (simp only: rate_with_hit [of lw b t, OF Some] status_of_success success_is_not_error) simp
qed

section \<open>The lookups of the currency converter\<close>

text \<open>
  Claim C8, as stated, fails: when a lookup misses, the error message echoes the keys as
  the caller wrote them, so the result for a key and the result for its lower-cased form
  differ.
\<close>

theorem lookup_result_echoes_key_counterexample:
  "get_fee_for_payment_method ''Bitcoin'' \<noteq> get_fee_for_payment_method (lower ''Bitcoin'') \<and>
   get_exchange_rate ''USD'' ''GBP'' \<noteq> get_exchange_rate (lower ''USD'') (lower ''GBP'')"
  by code_simp

text \<open>
  Claim C8, amended. Both lookups are functions of their arguments alone and are
  case-insensitive in what they look up, for every input string and whatever
  \<open>str.lower\<close> does to it (the parameter \<open>lw\<close>). Keys with the same lower-cased form get
  the same status and the same fee or rate, and exactly the same result when the lookup
  succeeds. Where lower-casing the lower-cased key changes nothing, this holds between a
  key and its lower-cased form. The results are not equal throughout: every result is a
  success or an error, and an error result carries the message built from the keys as the
  caller wrote them.
\<close>

theorem lookup_case_insensitive:
  "(lw m = lw m' \<longrightarrow>
      status_of (get_fee_for_payment_method_with lw m) =
        status_of (get_fee_for_payment_method_with lw m') \<and>
      dict_get (get_fee_for_payment_method_with lw m) ''fee_percentage'' =
        dict_get (get_fee_for_payment_method_with lw m') ''fee_percentage'' \<and>
      (status_of (get_fee_for_payment_method_with lw m) = Some (VStr ''success'') \<longrightarrow>
         get_fee_for_payment_method_with lw m = get_fee_for_payment_method_with lw m')) \<and>
   (lw (lw m) = lw m \<longrightarrow>
      status_of (get_fee_for_payment_method_with lw m) =
        status_of (get_fee_for_payment_method_with lw (lw m)) \<and>
      dict_get (get_fee_for_payment_method_with lw m) ''fee_percentage'' =
        dict_get (get_fee_for_payment_method_with lw (lw m)) ''fee_percentage'' \<and>
      (status_of (get_fee_for_payment_method_with lw m) = Some (VStr ''success'') \<longrightarrow>
         get_fee_for_payment_method_with lw m = get_fee_for_payment_method_with lw (lw m))) \<and>
   (status_of (get_fee_for_payment_method_with lw m) = Some (VStr ''success'') \<or>
    status_of (get_fee_for_payment_method_with lw m) = Some (VStr ''error'')) \<and>
   (status_of (get_fee_for_payment_method_with lw m) = Some (VStr ''error'') \<longrightarrow>
      get_fee_for_payment_method_with lw m =
        [(''status'', VStr ''error''),
         (''error_message'',
          VStr (''Payment method '' @ apostrophe @ m @ apostrophe @ '' not found''))]) \<and>
   (lw b = lw b' \<and> lw t = lw t' \<longrightarrow>
      status_of (get_exchange_rate_with lw b t) =
        status_of (get_exchange_rate_with lw b' t') \<and>
      dict_get (get_exchange_rate_with lw b t) ''rate'' =
        dict_get (get_exchange_rate_with lw b' t') ''rate'' \<and>
      (status_of (get_exchange_rate_with lw b t) = Some (VStr ''success'') \<longrightarrow>
         get_exchange_rate_with lw b t = get_exchange_rate_with lw b' t')) \<and>
   (lw (lw b) = lw b \<and> lw (lw t) = lw t \<longrightarrow>
      status_of (get_exchange_rate_with lw b t) =
        status_of (get_exchange_rate_with lw (lw b) (lw t)) \<and>
      dict_get (get_exchange_rate_with lw b t) ''rate'' =
        dict_get (get_exchange_rate_with lw (lw b) (lw t)) ''rate'' \<and>
      (status_of (get_exchange_rate_with lw b t) = Some (VStr ''success'') \<longrightarrow>
         get_exchange_rate_with lw b t = get_exchange_rate_with lw (lw b) (lw t))) \<and>
   (status_of (get_exchange_rate_with lw b t) = Some (VStr ''success'') \<or>
    status_of (get_exchange_rate_with lw b t) = Some (VStr ''error'')) \<and>
   (status_of (get_exchange_rate_with lw b t) = Some (VStr ''error'') \<longrightarrow>
      get_exchange_rate_with lw b t =
        [(''status'', VStr ''error''),
         (''error_message'', VStr (''Unsupported currency pair: '' @ b @ ''/'' @ t))])"
proof -
  have fee_pair: "lw m = lw m' \<longrightarrow>
      status_of (get_fee_for_payment_method_with lw m) =
        status_of (get_fee_for_payment_method_with lw m') \<and>
      dict_get (get_fee_for_payment_method_with lw m) ''fee_percentage'' =
        dict_get (get_fee_for_payment_method_with lw m') ''fee_percentage'' \<and>
      (status_of (get_fee_for_payment_method_with lw m) = Some (VStr ''success'') \<longrightarrow>
         get_fee_for_payment_method_with lw m = get_fee_for_payment_method_with lw m')"
    using fee_same_lowered_key [of lw m m'] by blast
  have fee_lowered: "lw (lw m) = lw m \<longrightarrow>
      status_of (get_fee_for_payment_method_with lw m) =
        status_of (get_fee_for_payment_method_with lw (lw m)) \<and>
      dict_get (get_fee_for_payment_method_with lw m) ''fee_percentage'' =
        dict_get (get_fee_for_payment_method_with lw (lw m)) ''fee_percentage'' \<and>
      (status_of (get_fee_for_payment_method_with lw m) = Some (VStr ''success'') \<longrightarrow>
         get_fee_for_payment_method_with lw m = get_fee_for_payment_method_with lw (lw m))"
    using fee_same_lowered_key [of lw m "lw m"] by metis
  have rate_pair: "lw b = lw b' \<and> lw t = lw t' \<longrightarrow>
      status_of (get_exchange_rate_with lw b t) =
        status_of (get_exchange_rate_with lw b' t') \<and>
      dict_get (get_exchange_rate_with lw b t) ''rate'' =
        dict_get (get_exchange_rate_with lw b' t') ''rate'' \<and>
      (status_of (get_exchange_rate_with lw b t) = Some (VStr ''success'') \<longrightarrow>
         get_exchange_rate_with lw b t = get_exchange_rate_with lw b' t')"
    using rate_same_lowered_keys [of lw b b' t t'] by blast
  have rate_lowered: "lw (lw b) = lw b \<and> lw (lw t) = lw t \<longrightarrow>
      status_of (get_exchange_rate_with lw b t) =
        status_of (get_exchange_rate_with lw (lw b) (lw t)) \<and>
      dict_get (get_exchange_rate_with lw b t) ''rate'' =
        dict_get (get_exchange_rate_with lw (lw b) (lw t)) ''rate'' \<and>
      (status_of (get_exchange_rate_with lw b t) = Some (VStr ''success'') \<longrightarrow>
         get_exchange_rate_with lw b t = get_exchange_rate_with lw (lw b) (lw t))"
    using rate_same_lowered_keys [of lw b "lw b" t "lw t"] by metis
  from fee_pair fee_lowered fee_error_echoes_key [of lw m]
    rate_pair rate_lowered rate_error_echoes_keys [of lw b t]
  show ?thesis
    by blast
qed

theorem lookup_case_insensitive_witness:
  "lower ''Platinum Credit Card'' = lower ''PLATINUM CREDIT CARD'' \<and>
   lower (lower ''Platinum Credit Card'') = lower ''Platinum Credit Card'' \<and>
   status_of (get_fee_for_payment_method ''Platinum Credit Card'') = Some (VStr ''success'') \<and>
   get_fee_for_payment_method ''Platinum Credit Card'' =
     get_fee_for_payment_method ''PLATINUM CREDIT CARD'' \<and>
   get_fee_for_payment_method ''Platinum Credit Card'' =
     get_fee_for_payment_method (lower ''Platinum Credit Card'') \<and>
   status_of (get_fee_for_payment_method ''Bitcoin'') = Some (VStr ''error'') \<and>
   get_fee_for_payment_method ''Bitcoin'' =
     [(''status'', VStr ''error''),
      (''error_message'',
       VStr (''Payment method '' @ apostrophe @ ''Bitcoin'' @ apostrophe @ '' not found''))] \<and>
   lower ''USD'' = lower ''Usd'' \<and> lower ''Jpy'' = lower ''JPY'' \<and>
   status_of (get_exchange_rate ''USD'' ''Jpy'') = Some (VStr ''success'') \<and>
   get_exchange_rate ''USD'' ''Jpy'' = get_exchange_rate ''Usd'' ''JPY'' \<and>
   get_exchange_rate ''USD'' ''Jpy'' = get_exchange_rate (lower ''USD'') (lower ''Jpy'') \<and>
   status_of (get_exchange_rate ''USD'' ''GBP'') = Some (VStr ''error'') \<and>
   get_exchange_rate ''USD'' ''GBP'' =
     [(''status'', VStr ''error''),
      (''error_message'', VStr (''Unsupported currency pair: '' @ ''USD'' @ ''/'' @ ''GBP''))]"
proof -
  have same_fee_key: "lower ''Platinum Credit Card'' = lower ''PLATINUM CREDIT CARD''"
    by code_simp
  have fee_key_idem:
    "lower (lower ''Platinum Credit Card'') = lower ''Platinum Credit Card''"
    by (rule lower_idem)
  have same_rate_keys: "lower ''USD'' = lower ''Usd'' \<and> lower ''Jpy'' = lower ''JPY''"
    by code_simp
  have rate_keys_idem:
    "lower (lower ''USD'') = lower ''USD'' \<and> lower (lower ''Jpy'') = lower ''Jpy''"
    by (simp only: lower_idem)
  have fee_found:
    "status_of (get_fee_for_payment_method ''Platinum Credit Card'') = Some (VStr ''success'')"
    by code_simp
  have fee_missing:
    "status_of (get_fee_for_payment_method ''Bitcoin'') = Some (VStr ''error'')"
    by code_simp
  have rate_found: "status_of (get_exchange_rate ''USD'' ''Jpy'') = Some (VStr ''success'')"
    by code_simp
  have rate_missing: "status_of (get_exchange_rate ''USD'' ''GBP'') = Some (VStr ''error'')"
    by code_simp
  note hit =
    lookup_case_insensitive
      [of lower "''Platinum Credit Card''" "''PLATINUM CREDIT CARD''"
          "''USD''" "''Usd''" "''Jpy''" "''JPY''",
       unfolded get_fee_for_payment_method_with_lower get_exchange_rate_with_lower]
  note miss =
    lookup_case_insensitive
      [of lower "''Bitcoin''" "''Bitcoin''" "''USD''" "''USD''" "''GBP''" "''GBP''",
       unfolded get_fee_for_payment_method_with_lower get_exchange_rate_with_lower]
  from hit same_fee_key fee_found
  have fee_pair: "get_fee_for_payment_method ''Platinum Credit Card'' =
      get_fee_for_payment_method ''PLATINUM CREDIT CARD''"
    by blast
  from hit fee_key_idem fee_found
  have fee_lowered: "get_fee_for_payment_method ''Platinum Credit Card'' =
      get_fee_for_payment_method (lower ''Platinum Credit Card'')"
    by blast
  from miss fee_missing
  have fee_echo: "get_fee_for_payment_method ''Bitcoin'' =
      [(''status'', VStr ''error''),
       (''error_message'',
        VStr (''Payment method '' @ apostrophe @ ''Bitcoin'' @ apostrophe @ '' not found''))]"
    by blast
  from hit same_rate_keys rate_found
  have rate_pair: "get_exchange_rate ''USD'' ''Jpy'' = get_exchange_rate ''Usd'' ''JPY''"
    by blast
  from hit rate_keys_idem rate_found
  have rate_lowered:
    "get_exchange_rate ''USD'' ''Jpy'' = get_exchange_rate (lower ''USD'') (lower ''Jpy'')"
    by blast
  from miss rate_missing
  have rate_echo: "get_exchange_rate ''USD'' ''GBP'' =
      [(''status'', VStr ''error''),
       (''error_message'', VStr (''Unsupported currency pair: '' @ ''USD'' @ ''/'' @ ''GBP''))]"
    by blast
  from same_fee_key fee_key_idem fee_found fee_pair fee_lowered fee_missing fee_echo
    same_rate_keys rate_found rate_pair rate_lowered rate_missing rate_echo
  show ?thesis
    by blast
qed

text \<open>
  Claim C9. The fee lookup for the mixed-case key \<open>Platinum Credit Card\<close> returns the
  success result with \<open>fee_percentage\<close> 0.02. The fee lookup for \<open>bitcoin\<close> finds nothing
  and reports it as the error result whose message says that the payment method was not
  found.
\<close>

theorem scenario_D_fee_lookup:
  "get_fee_for_payment_method ''Platinum Credit Card'' =
     [(''status'', VStr ''success''), (''fee_percentage'', VFloat 0.02)] \<and>
   dict_get fee_database (lower ''bitcoin'') = None \<and>
   get_fee_for_payment_method ''bitcoin'' =
     [(''status'', VStr ''error''),
      (''error_message'',
       VStr (''Payment method '' @ apostrophe @ ''bitcoin'' @ apostrophe @ '' not found''))]"
  by (simp add: get_fee_for_payment_method_def dict_get_def fee_database_def
      lower_platinum lower_bitcoin)

text \<open>
  Claim C10. The exchange-rate lookup knows the base currency \<open>usd\<close> only, in any
  casing. A base whose lower-cased form is not \<open>usd\<close> gives an error result for every
  target. With base \<open>usd\<close> the lookup succeeds exactly for the targets \<open>eur\<close>, \<open>jpy\<close>
  and \<open>inr\<close> (in any casing), with rates 0.93, 157.5 and 83.58, and gives an error
  result for every other target.
\<close>

theorem exchange_rate_supported_pairs:
  "(lower b \<noteq> ''usd'' \<longrightarrow> status_of (get_exchange_rate b t) = Some (VStr ''error'')) \<and>
   (lower b = ''usd'' \<longrightarrow>
      (lower t = ''eur'' \<longrightarrow>
         get_exchange_rate b t = [(''status'', VStr ''success''), (''rate'', VFloat 0.93)]) \<and>
      (lower t = ''jpy'' \<longrightarrow>
         get_exchange_rate b t = [(''status'', VStr ''success''), (''rate'', VFloat 157.5)]) \<and>
      (lower t = ''inr'' \<longrightarrow>
         get_exchange_rate b t = [(''status'', VStr ''success''), (''rate'', VFloat 83.58)]) \<and>
      (lower t \<noteq> ''eur'' \<and> lower t \<noteq> ''jpy'' \<and> lower t \<noteq> ''inr'' \<longrightarrow>
         status_of (get_exchange_rate b t) = Some (VStr ''error'')))"
  by (simp add: get_exchange_rate_def status_of_def dict_get_def dict_get_default_def
      rate_database_def)

theorem exchange_rate_supported_pairs_witness:
  "lower ''EUR'' \<noteq> ''usd'' \<and> lower ''USD'' = ''usd'' \<and>
   status_of (get_exchange_rate ''EUR'' ''usd'') = Some (VStr ''error'') \<and>
   get_exchange_rate ''USD'' ''Eur'' = [(''status'', VStr ''success''), (''rate'', VFloat 0.93)] \<and>
   get_exchange_rate ''USD'' ''JPY'' = [(''status'', VStr ''success''), (''rate'', VFloat 157.5)] \<and>
   get_exchange_rate ''USD'' ''inr'' = [(''status'', VStr ''success''), (''rate'', VFloat 83.58)] \<and>
   status_of (get_exchange_rate ''USD'' ''GBP'') = Some (VStr ''error'')"
proof -
  have bases: "lower ''EUR'' \<noteq> ''usd'' \<and> lower ''USD'' = ''usd''"
    by code_simp
  have targets: "lower ''Eur'' = ''eur'' \<and> lower ''JPY'' = ''jpy'' \<and> lower ''inr'' = ''inr'' \<and>
      lower ''GBP'' \<noteq> ''eur'' \<and> lower ''GBP'' \<noteq> ''jpy'' \<and> lower ''GBP'' \<noteq> ''inr''"
    by code_simp
  show ?thesis
    using bases targets
      exchange_rate_supported_pairs [of "''EUR''" "''usd''"]
      exchange_rate_supported_pairs [of "''USD''" "''Eur''"]
      exchange_rate_supported_pairs [of "''USD''" "''JPY''"]
      exchange_rate_supported_pairs [of "''USD''" "''inr''"]
      exchange_rate_supported_pairs [of "''USD''" "''GBP''"]
    by simp
qed



end
